theory Spec2Isabelle
  imports Main
begin

section \<open>Data model of the session (cql\_session\_impl.cpp)\<close>

text \<open>
  The session implementation is the only translation unit of the driver that is at hand;
  the classes it uses (hosts, connections, the pooling options, the trashcan, the
  concurrent maps) are declared in headers that are not. Their state is modelled by the
  records below, with exactly the members the session reads or writes.

  An endpoint is identified with its printed form (\<open>to_string()\<close>), a connection id
  with a number.
\<close>

type_synonym cql_endpoint_t = string
type_synonym cql_uuid_t = nat

text \<open>Modelled from the spec: the distance classification of a host
  (\<open>cql_host_distance_enum\<close>, declared in cql\_host.hpp), LOCAL / REMOTE / IGNORED.\<close>

datatype cql_host_distance_enum = LOCAL | REMOTE | IGNORED

text \<open>A host as the session sees it: \<open>endpoint()\<close>, \<open>distance(policies)\<close> and
  \<open>is_considerably_up()\<close>.\<close>

record cql_host_t =
  host_endpoint :: cql_endpoint_t
  host_distance :: cql_host_distance_enum
  is_considerably_up :: bool

text \<open>The pooling options are four tables indexed by distance; the values are C++
  \<open>long\<close>s, read here as integers.\<close>

record cql_pooling_options_t =
  core_connections_per_host :: "cql_host_distance_enum \<Rightarrow> int"
  max_connection_per_host :: "cql_host_distance_enum \<Rightarrow> int"
  min_simultaneous_requests_per_connection_treshold :: "cql_host_distance_enum \<Rightarrow> int"
  max_simultaneous_requests_per_connection_treshold :: "cql_host_distance_enum \<Rightarrow> int"

text \<open>A stream handle; \<open>cql_stream_t()\<close> is the invalid stream.\<close>

datatype cql_stream_t = Invalid_Stream | Stream nat

fun is_invalid :: "cql_stream_t \<Rightarrow> bool" where
  "is_invalid Invalid_Stream = True"
| "is_invalid (Stream n) = False"

text \<open>Modelled from the spec: the connection (\<open>cql_connection_t\<close>, an interface whose
  implementation is not at hand). It owns its endpoint, a health flag, the free streams
  and the streams in flight; \<open>closed\<close> records that \<open>close()\<close> was called.\<close>

record cql_connection_t =
  conn_id :: cql_uuid_t
  conn_endpoint :: cql_endpoint_t
  healthy :: bool
  closed :: bool
  free_streams :: "nat list"
  used_streams :: "nat list"

definition in_flight :: "cql_connection_t \<Rightarrow> nat" where
  "in_flight c = length (used_streams c)"

definition is_healthy :: "cql_connection_t \<Rightarrow> bool" where
  "is_healthy c = healthy c"

text \<open>Modelled from the spec: a connection is busy when its in-flight count has reached
  the threshold (a stream is acquired while \<open>in_flight < max_simultaneous\<close>), and free
  when the count is at or below the threshold (\<open>in_flight \<le> min_simultaneous\<close>).\<close>

definition is_busy :: "cql_connection_t \<Rightarrow> int \<Rightarrow> bool" where
  "is_busy c threshold = (threshold \<le> int (in_flight c))"

definition is_free :: "cql_connection_t \<Rightarrow> int \<Rightarrow> bool" where
  "is_free c threshold = (int (in_flight c) \<le> threshold)"

text \<open>Modelled from the spec: acquiring takes a stream out of the free pool, or yields
  the invalid stream when none is left; releasing puts a stream in flight back.\<close>

definition acquire_stream :: "cql_connection_t \<Rightarrow> cql_stream_t \<times> cql_connection_t" where
  "acquire_stream c =
     (case free_streams c of
        [] \<Rightarrow> (Invalid_Stream, c)
      | n # ns \<Rightarrow> (Stream n, c\<lparr>free_streams := ns, used_streams := n # used_streams c\<rparr>))"

fun release_stream :: "cql_stream_t \<Rightarrow> cql_connection_t \<Rightarrow> cql_connection_t" where
  "release_stream Invalid_Stream c = c"
| "release_stream (Stream n) c =
     (if n \<in> set (used_streams c)
      then c\<lparr>free_streams := n # free_streams c, used_streams := removeAll n (used_streams c)\<rparr>
      else c)"

definition close_connection :: "cql_connection_t \<Rightarrow> cql_connection_t" where
  "close_connection c = c\<lparr>closed := True\<rparr>"

text \<open>The collection of one endpoint maps connection ids to connections; it is kept as
  an association list in insertion order, which is also the order of iteration.
  \<open>try_add\<close> rejects a key that is present, \<open>try_erase\<close> hands back what it removed.\<close>

type_synonym cql_connections_collection_t = "(cql_uuid_t \<times> cql_connection_t) list"

definition try_add :: "'k \<Rightarrow> 'v \<Rightarrow> ('k \<times> 'v) list \<Rightarrow> bool \<times> ('k \<times> 'v) list" where
  "try_add k v m = (case map_of m k of None \<Rightarrow> (True, m @ [(k, v)]) | Some _ \<Rightarrow> (False, m))"

definition try_get :: "'k \<Rightarrow> ('k \<times> 'v) list \<Rightarrow> 'v option" where
  "try_get k m = map_of m k"

definition try_erase :: "'k \<Rightarrow> ('k \<times> 'v) list \<Rightarrow> 'v option \<times> ('k \<times> 'v) list" where
  "try_erase k m =
     (case map_of m k of
        None \<Rightarrow> (None, m)
      | Some v \<Rightarrow> (Some v, filter (\<lambda>kv. fst kv \<noteq> k) m))"

text \<open>Writing through a shared pointer to an object that lives in a collection.\<close>

definition store :: "'k \<Rightarrow> 'v \<Rightarrow> ('k \<times> 'v) list \<Rightarrow> ('k \<times> 'v) list" where
  "store k v m = map (\<lambda>kv. if fst kv = k then (k, v) else kv) m"

type_synonym cql_connection_pool_t = "(cql_endpoint_t \<times> cql_connections_collection_t) list"

text \<open>Modelled from the spec: the trashcan (cql\_trashcan.hpp) keeps, per endpoint, the
  deposited connections, the most recent first; \<open>recycle\<close> hands back the most recently
  deposited one. The reaping timer is not part of the model.\<close>

type_synonym cql_trashcan_t = "cql_endpoint_t \<Rightarrow> cql_connection_t list"

definition trashcan_put :: "cql_connection_t \<Rightarrow> cql_trashcan_t \<Rightarrow> cql_trashcan_t" where
  "trashcan_put c t = t(conn_endpoint c := c # t (conn_endpoint c))"

definition trashcan_recycle ::
  "cql_endpoint_t \<Rightarrow> cql_trashcan_t \<Rightarrow> cql_connection_t option \<times> cql_trashcan_t" where
  "trashcan_recycle ep t =
     (case t ep of [] \<Rightarrow> (None, t) | c # cs \<Rightarrow> (Some c, t(ep := cs)))"

text \<open>What the session is configured with and what its environment decides:
  the pooling options, the plan the load-balancing policy hands out, the connection
  factory \<open>_client_callback\<close> (its \<open>n\<close>-th product), whether the connect-future of a dial
  to an endpoint resolves without error, and whether the build defines \<open>NDEBUG\<close>.\<close>

record cql_configuration_t =
  pooling_options :: cql_pooling_options_t
  new_query_plan :: "cql_host_t list"
  client_callback :: "nat \<Rightarrow> cql_connection_t"
  dial_succeeds :: "cql_endpoint_t \<Rightarrow> bool"
  ndebug :: bool

text \<open>The session object. The connection counters are C++ \<open>long\<close>s behind a shared
  pointer, read here as unbounded integers (one step of a counter is one connection);
  the model says nothing about a counter at the largest or smallest \<open>long\<close>, which
  takes as many unmatched dials to reach.
  \<open>ready_callback_set\<close> says that \<open>_ready_callback\<close> is non-empty,
  \<open>ready_callback_calls\<close> counts its invocations, \<open>clients_made\<close> the products of the
  factory.\<close>

record cql_session_impl_t =
  ready :: bool
  defunct :: bool
  ready_callback_set :: bool
  ready_callback_calls :: nat
  clients_made :: nat
  connection_counters :: "cql_endpoint_t \<rightharpoonup> int"
  connection_pool :: cql_connection_pool_t
  trashcan :: cql_trashcan_t

text \<open>Everything the session throws, and the abort of a failed \<open>assert\<close>.\<close>

datatype failure =
    cql_exception string
  | cql_too_many_connections_per_host_exception
  | assertion_failed
  | null_pointer_dereference

section \<open>Connection accounting\<close>

text \<open>\<open>free_connection\<close>: nothing for a null pointer; otherwise the connection is closed
  and the counter of its endpoint, if there is one, is decremented. The closed object is
  handed back next to the session.\<close>

definition free_connection ::
  "cql_connection_t option \<Rightarrow> cql_session_impl_t \<Rightarrow> cql_connection_t option \<times> cql_session_impl_t" where
  "free_connection connection s =
     (case connection of
        None \<Rightarrow> (None, s)
      | Some c \<Rightarrow>
          (let connection_endpoint = conn_endpoint c;
               c' = close_connection c
           in case connection_counters s connection_endpoint of
                Some counter \<Rightarrow>
                  (Some c', s\<lparr>connection_counters :=
                                 (connection_counters s)(connection_endpoint \<mapsto> counter - 1)\<rparr>)
              | None \<Rightarrow> (Some c', s)))"

definition get_max_connections_number :: "cql_configuration_t \<Rightarrow> cql_host_t \<Rightarrow> int" where
  "get_max_connections_number cfg host =
     max_connection_per_host (pooling_options cfg) (host_distance host)"

text \<open>\<open>increase_connection_counter\<close>: a fresh counter of 1 is added when the endpoint has
  none, and that path returns true at once; otherwise the counter is incremented, and
  decremented again when it then exceeds the maximum.\<close>

definition increase_connection_counter ::
  "cql_configuration_t \<Rightarrow> cql_host_t \<Rightarrow> cql_session_impl_t \<Rightarrow> bool \<times> cql_session_impl_t" where
  "increase_connection_counter cfg host s =
     (let endpoint = host_endpoint host;
          max_connections = get_max_connections_number cfg host
      in case connection_counters s endpoint of
           None \<Rightarrow> (True, s\<lparr>connection_counters := (connection_counters s)(endpoint \<mapsto> 1)\<rparr>)
         | Some counter \<Rightarrow>
             (let incremented = counter + 1
              in if incremented > max_connections
                 then (False, s\<lparr>connection_counters :=
                                  (connection_counters s)(endpoint \<mapsto> incremented - 1)\<rparr>)
                 else (True, s\<lparr>connection_counters :=
                                 (connection_counters s)(endpoint \<mapsto> incremented)\<rparr>)))"

definition decrease_connection_counter ::
  "cql_host_t \<Rightarrow> cql_session_impl_t \<Rightarrow> bool \<times> cql_session_impl_t" where
  "decrease_connection_counter host s =
     (case connection_counters s (host_endpoint host) of
        Some counter \<Rightarrow>
          (True, s\<lparr>connection_counters :=
                    (connection_counters s)(host_endpoint host \<mapsto> counter - 1)\<rparr>)
      | None \<Rightarrow> (False, s))"

section \<open>Lifecycle callbacks\<close>

text \<open>\<open>connect_callback\<close>: clears \<open>_defunct\<close>, sets \<open>_ready\<close>, fulfils the promise of the
  dial and calls \<open>_ready_callback\<close> when there is one.\<close>

definition connect_callback :: "cql_session_impl_t \<Rightarrow> cql_session_impl_t" where
  "connect_callback s =
     (let s1 = s\<lparr>defunct := False\<rparr>;
          s2 = s1\<lparr>ready := True\<rparr>
      in if ready_callback_set s2
         then s2\<lparr>ready_callback_calls := Suc (ready_callback_calls s2)\<rparr>
         else s2)"

text \<open>\<open>allocate_connection\<close>: throws when the counter cannot be increased; otherwise a
  connection is made by the factory and dialled to the host's endpoint. When the
  connect-future holds an error, the counter is decreased and an exception naming the
  endpoint is thrown; when it does not, \<open>connect_callback\<close> has run and the connection is
  returned. (The body of \<open>connect_errback\<close> refers to members that this translation unit
  never fills; its effect on the flags is left out.)\<close>

definition allocate_connection ::
  "cql_configuration_t \<Rightarrow> cql_host_t \<Rightarrow> cql_session_impl_t \<Rightarrow>
     (failure + cql_connection_t option) \<times> cql_session_impl_t" where
  "allocate_connection cfg host s =
     (case increase_connection_counter cfg host s of
        (False, s1) \<Rightarrow> (Inl cql_too_many_connections_per_host_exception, s1)
      | (True, s1) \<Rightarrow>
          (let connection = (client_callback cfg (clients_made s1))
                              \<lparr>conn_endpoint := host_endpoint host\<rparr>;
               s2 = s1\<lparr>clients_made := Suc (clients_made s1)\<rparr>
           in if \<not> dial_succeeds cfg (host_endpoint host)
              then (Inl (cql_exception (''cannot connect to host: '' @ host_endpoint host)),
                    snd (decrease_connection_counter host s2))
              else (Inr (Some connection), connect_callback s2)))"

section \<open>The pool\<close>

text \<open>\<open>add_to_connection_pool\<close>: the collection of the endpoint, installed empty when
  the pool has none. (The retry loop of the source runs its body at most once when no
  other thread interferes.)\<close>

definition add_to_connection_pool ::
  "cql_endpoint_t \<Rightarrow> cql_session_impl_t \<Rightarrow> cql_connections_collection_t \<times> cql_session_impl_t" where
  "add_to_connection_pool host_address s =
     (case try_get host_address (connection_pool s) of
        Some result \<Rightarrow> (result, s)
      | None \<Rightarrow>
          (let empty_collection = [];
               s' = s\<lparr>connection_pool := snd (try_add host_address empty_collection (connection_pool s))\<rparr>
           in (empty_collection, s')))"

text \<open>The collection is held through a shared pointer; \<open>set_connections\<close> writes the
  value a function has worked on back to where the pool keeps it.\<close>

definition set_connections ::
  "cql_endpoint_t \<Rightarrow> cql_connections_collection_t \<Rightarrow> cql_session_impl_t \<Rightarrow> cql_session_impl_t" where
  "set_connections host_address connections s =
     s\<lparr>connection_pool := store host_address connections (connection_pool s)\<rparr>"

definition try_remove_connection ::
  "cql_connections_collection_t \<Rightarrow> cql_uuid_t \<Rightarrow> cql_session_impl_t \<Rightarrow>
     cql_connections_collection_t \<times> cql_session_impl_t" where
  "try_remove_connection connections connection_id s =
     (case try_erase connection_id connections of
        (Some conn, connections') \<Rightarrow> (connections', snd (free_connection (Some conn) s))
      | (None, connections') \<Rightarrow> (connections', s))"

text \<open>The body of the loop of \<open>try_find_free_stream\<close>, for the entry \<open>(conn_id, conn)\<close>
  of the iteration, on the collection as it is by then. The first component is the
  connection and stream the function returns with, or \<open>None\<close> when the loop goes on.\<close>

definition visit_connection ::
  "cql_configuration_t \<Rightarrow> cql_host_t \<Rightarrow> cql_uuid_t \<times> cql_connection_t \<Rightarrow>
     cql_connections_collection_t \<Rightarrow> cql_session_impl_t \<Rightarrow>
     (cql_connection_t \<times> cql_stream_t) option \<times> cql_connections_collection_t \<times> cql_session_impl_t" where
  "visit_connection cfg host kv connections s =
     (let po = pooling_options cfg;
          distance = host_distance host;
          conn_id = fst kv;
          conn = snd kv
      in if \<not> is_healthy conn then
           (case try_remove_connection connections conn_id s of
              (connections', s') \<Rightarrow> (None, connections', s'))
         else if \<not> is_busy conn (max_simultaneous_requests_per_connection_treshold po distance) then
           (case acquire_stream conn of
              (stream, conn') \<Rightarrow>
                if \<not> is_invalid stream
                then (Some (conn', stream), store conn_id conn' connections, s)
                else (None, connections, s))
         else if int (length connections) > core_connections_per_host po distance then
           (if is_free conn (min_simultaneous_requests_per_connection_treshold po distance)
            then (case try_erase conn_id connections of
                    (Some _, connections') \<Rightarrow>
                      (None, connections', s\<lparr>trashcan := trashcan_put conn (trashcan s)\<rparr>)
                  | (None, connections') \<Rightarrow> (None, connections', s))
            else (None, connections, s))
         else (None, connections, s))"

text \<open>The loop runs over the entries the collection had when it started (a snapshot),
  while the collection itself shrinks.\<close>

fun find_free_stream_loop ::
  "cql_configuration_t \<Rightarrow> cql_host_t \<Rightarrow> (cql_uuid_t \<times> cql_connection_t) list \<Rightarrow>
     cql_connections_collection_t \<Rightarrow> cql_session_impl_t \<Rightarrow>
     (cql_connection_t option \<times> cql_stream_t) \<times> cql_connections_collection_t \<times> cql_session_impl_t" where
  "find_free_stream_loop cfg host [] connections s = ((None, Invalid_Stream), connections, s)"
| "find_free_stream_loop cfg host (kv # rest) connections s =
     (case visit_connection cfg host kv connections s of
        (Some (conn, stream), connections', s') \<Rightarrow> ((Some conn, stream), connections', s')
      | (None, connections', s') \<Rightarrow> find_free_stream_loop cfg host rest connections' s')"

definition try_find_free_stream ::
  "cql_configuration_t \<Rightarrow> cql_host_t \<Rightarrow> cql_connections_collection_t \<Rightarrow> cql_session_impl_t \<Rightarrow>
     (cql_connection_t option \<times> cql_stream_t) \<times> cql_connections_collection_t \<times> cql_session_impl_t" where
  "try_find_free_stream cfg host connections s =
     find_free_stream_loop cfg host connections connections s"

section \<open>Dispatch\<close>

text \<open>What one round of the loop of \<open>connect\<close> ends with: \<open>continue\<close>, a \<open>return\<close>, or
  an exception leaving the function.\<close>

datatype connect_step =
    Next_Host
  | Found "cql_connection_t option \<times> cql_stream_t"
  | Thrown failure

text \<open>Taking a recycled connection out of the trashcan: an unhealthy one is freed and
  replaced by the null pointer.\<close>

definition recycle_healthy ::
  "cql_endpoint_t \<Rightarrow> cql_session_impl_t \<Rightarrow> cql_connection_t option \<times> cql_session_impl_t" where
  "recycle_healthy host_address s =
     (case trashcan_recycle host_address (trashcan s) of
        (conn, t') \<Rightarrow>
          (let s' = s\<lparr>trashcan := t'\<rparr>
           in case conn of
                Some c \<Rightarrow>
                  if \<not> is_healthy c then (None, snd (free_connection (Some c) s')) else (Some c, s')
              | None \<Rightarrow> (None, s')))"

text \<open>The body of the loop of \<open>connect\<close> for one host of the plan. Nothing in \<open>connect\<close>
  catches what \<open>allocate_connection\<close> throws.\<close>

definition connect_host ::
  "cql_configuration_t \<Rightarrow> cql_host_t \<Rightarrow> cql_session_impl_t \<Rightarrow> cql_endpoint_t list \<Rightarrow>
     connect_step \<times> cql_session_impl_t \<times> cql_endpoint_t list" where
  "connect_host cfg host s tried_hosts =
     (if \<not> is_considerably_up host then (Next_Host, s, tried_hosts)
      else
        (let host_address = host_endpoint host;
             tried_hosts' = tried_hosts @ [host_address]
         in case add_to_connection_pool host_address s of
              (connections, s1) \<Rightarrow>
          (case try_find_free_stream cfg host connections s1 of
              ((Some conn, stream), connections1, s2) \<Rightarrow>
                (Found (Some conn, stream), set_connections host_address connections1 s2, tried_hosts')
            | ((None, stream), connections1, s2) \<Rightarrow>
          (case recycle_healthy host_address s2 of
              (recycled, s3) \<Rightarrow>
          (case (case recycled of
                   None \<Rightarrow> allocate_connection cfg host s3
                 | Some c \<Rightarrow> (Inr (Some c), s3)) of
              (Inl e, s4) \<Rightarrow> (Thrown e, set_connections host_address connections1 s4, tried_hosts')
            | (Inr None, s4) \<Rightarrow> (Next_Host, set_connections host_address connections1 s4, tried_hosts')
            | (Inr (Some c), s4) \<Rightarrow>
                (case acquire_stream c of
                   (stream', c') \<Rightarrow>
                     (Found (Some c', stream'),
                      set_connections host_address (snd (try_add (conn_id c) c' connections1)) s4,
                      tried_hosts')))))))"

text \<open>\<open>connect\<close>: the hosts of the plan in order; when the plan is used up, the
  exception of the last line of the function.\<close>

fun connect ::
  "cql_configuration_t \<Rightarrow> cql_host_t list \<Rightarrow> cql_session_impl_t \<Rightarrow> cql_endpoint_t list \<Rightarrow>
     (failure + cql_connection_t option \<times> cql_stream_t) \<times> cql_session_impl_t \<times> cql_endpoint_t list" where
  "connect cfg [] s tried_hosts =
     (Inl (cql_exception ''no host is available according to load balancing policy.''),
      s, tried_hosts)"
| "connect cfg (host # query_plan) s tried_hosts =
     (case connect_host cfg host s tried_hosts of
        (Next_Host, s', tried_hosts') \<Rightarrow> connect cfg query_plan s' tried_hosts'
      | (Found r, s', tried_hosts') \<Rightarrow> (Inr r, s', tried_hosts')
      | (Thrown e, s', tried_hosts') \<Rightarrow> (Inl e, s', tried_hosts'))"

text \<open>\<open>get_connection\<close> asks the policy for a plan and starts \<open>connect\<close> on an empty list of
  tried hosts; the list is a local of the function and is gone when it returns.\<close>

definition get_connection ::
  "cql_configuration_t \<Rightarrow> cql_session_impl_t \<Rightarrow>
     (failure + cql_connection_t option \<times> cql_stream_t) \<times> cql_session_impl_t" where
  "get_connection cfg s =
     (case connect cfg (new_query_plan cfg) s [] of (r, s', tried_hosts) \<Rightarrow> (r, s'))"

text \<open>\<open>init\<close>: a first \<open>connect\<close>, then the stream it acquired is released on the
  connection (which lives in the pool).\<close>

definition init :: "cql_configuration_t \<Rightarrow> cql_session_impl_t \<Rightarrow> (failure + unit) \<times> cql_session_impl_t" where
  "init cfg s =
     (case connect cfg (new_query_plan cfg) s [] of
        (Inl e, s', tried_hosts) \<Rightarrow> (Inl e, s')
      | (Inr (None, stream), s', tried_hosts) \<Rightarrow> (Inl null_pointer_dereference, s')
      | (Inr (Some conn, stream), s', tried_hosts) \<Rightarrow>
          (Inr (),
           s'\<lparr>connection_pool :=
                map (\<lambda>(ep, connections).
                       if ep = conn_endpoint conn
                       then (ep, store (conn_id conn) (release_stream stream conn) connections)
                       else (ep, connections))
                    (connection_pool s')\<rparr>))"

section \<open>Requests\<close>

record cql_query_t =
  query_string :: string
  query_stream :: cql_stream_t

record cql_execute_t =
  prepared_id :: string
  bound_values :: "string list"

text \<open>The value of a result future: the error's \<open>library\<close> flag and message, and the
  result when there is one.\<close>

record cql_future_result_t =
  error_library :: bool
  error_message :: string
  future_result :: "string option"

text \<open>The operations of a connection that the session calls to submit a request; what
  they do is the I/O engine's matter, so they are parameters.\<close>

record connection_operations =
  conn_query :: "cql_connection_t \<Rightarrow> cql_query_t \<Rightarrow> cql_future_result_t"
  conn_execute :: "cql_connection_t \<Rightarrow> cql_execute_t \<Rightarrow> cql_future_result_t"
  conn_query_callback :: "cql_connection_t \<Rightarrow> cql_query_t \<Rightarrow> cql_stream_t"
  conn_prepare_callback :: "cql_connection_t \<Rightarrow> cql_query_t \<Rightarrow> cql_stream_t"

definition library_error_future :: cql_future_result_t where
  "library_error_future =
     \<lparr>error_library = True,
      error_message = ''could not obtain viable client from the pool.'',
      future_result = None\<rparr>"

text \<open>The overloads taking callbacks.\<close>

definition execute_operation ::
  "cql_configuration_t \<Rightarrow> cql_query_t \<Rightarrow> (cql_connection_t \<Rightarrow> cql_query_t \<Rightarrow> cql_stream_t) \<Rightarrow>
     cql_session_impl_t \<Rightarrow> (failure + cql_stream_t) \<times> cql_session_impl_t" where
  "execute_operation cfg a_query method s =
     (case get_connection cfg s of
        (Inl e, s') \<Rightarrow> (Inl e, s')
      | (Inr (Some conn, stream), s') \<Rightarrow>
          (let tmp = a_query\<lparr>query_stream := stream\<rparr> in (Inr (method conn tmp), s'))
      | (Inr (None, stream), s') \<Rightarrow> (Inr Invalid_Stream, s'))"

definition query_callback ::
  "connection_operations \<Rightarrow> cql_configuration_t \<Rightarrow> cql_query_t \<Rightarrow> cql_session_impl_t \<Rightarrow>
     (failure + cql_stream_t) \<times> cql_session_impl_t" where
  "query_callback ops cfg a_query s = execute_operation cfg a_query (conn_query_callback ops) s"

definition prepare_callback ::
  "connection_operations \<Rightarrow> cql_configuration_t \<Rightarrow> cql_query_t \<Rightarrow> cql_session_impl_t \<Rightarrow>
     (failure + cql_stream_t) \<times> cql_session_impl_t" where
  "prepare_callback ops cfg a_query s = execute_operation cfg a_query (conn_prepare_callback ops) s"

text \<open>\<open>execute\<close> with callbacks: a connection is obtained, then \<open>assert(0)\<close>; the call of
  the connection is commented out, so a build without assertions returns the invalid
  stream.\<close>

definition execute_callback ::
  "cql_configuration_t \<Rightarrow> cql_execute_t \<Rightarrow> cql_session_impl_t \<Rightarrow>
     (failure + cql_stream_t) \<times> cql_session_impl_t" where
  "execute_callback cfg message s =
     (case get_connection cfg s of
        (Inl e, s') \<Rightarrow> (Inl e, s')
      | (Inr (conn, stream), s') \<Rightarrow>
          if \<not> ndebug cfg then (Inl assertion_failed, s')
          else (Inr Invalid_Stream, s'))"

text \<open>The overloads returning a future.\<close>

definition query ::
  "connection_operations \<Rightarrow> cql_configuration_t \<Rightarrow> cql_query_t \<Rightarrow> cql_session_impl_t \<Rightarrow>
     (failure + cql_future_result_t) \<times> cql_session_impl_t" where
  "query ops cfg a_query s =
     (case get_connection cfg s of
        (Inl e, s') \<Rightarrow> (Inl e, s')
      | (Inr (Some conn, stream), s') \<Rightarrow>
          (let q = a_query\<lparr>query_stream := stream\<rparr> in (Inr (conn_query ops conn q), s'))
      | (Inr (None, stream), s') \<Rightarrow> (Inr library_error_future, s'))"

definition prepare ::
  "connection_operations \<Rightarrow> cql_configuration_t \<Rightarrow> cql_query_t \<Rightarrow> cql_session_impl_t \<Rightarrow>
     (failure + cql_future_result_t) \<times> cql_session_impl_t" where
  "prepare ops cfg a_query s =
     (case get_connection cfg s of
        (Inl e, s') \<Rightarrow> (Inl e, s')
      | (Inr (Some conn, stream), s') \<Rightarrow>
          (let q = a_query\<lparr>query_stream := stream\<rparr> in (Inr (conn_query ops conn q), s'))
      | (Inr (None, stream), s') \<Rightarrow> (Inr library_error_future, s'))"

text \<open>\<open>execute\<close> returning a future: a connection is obtained, then \<open>assert(0)\<close>
  (``Not implemented''); what follows the assertion runs only in a build with \<open>NDEBUG\<close>.\<close>

definition execute ::
  "connection_operations \<Rightarrow> cql_configuration_t \<Rightarrow> cql_execute_t \<Rightarrow> cql_session_impl_t \<Rightarrow>
     (failure + cql_future_result_t) \<times> cql_session_impl_t" where
  "execute ops cfg message s =
     (case get_connection cfg s of
        (Inl e, s') \<Rightarrow> (Inl e, s')
      | (Inr (conn, stream), s') \<Rightarrow>
          if \<not> ndebug cfg then (Inl assertion_failed, s')
          else (case conn of
                  Some c \<Rightarrow> (Inr (conn_execute ops c message), s')
                | None \<Rightarrow> (Inr library_error_future, s')))"

section \<open>Closing and measuring\<close>

text \<open>\<open>close\<close> calls \<open>close()\<close> on every connection of every collection of the pool, and
  does nothing else.\<close>

definition close :: "cql_session_impl_t \<Rightarrow> cql_session_impl_t" where
  "close s =
     s\<lparr>connection_pool :=
         map (\<lambda>(ep, connections). (ep, map (\<lambda>(conn_id, conn). (conn_id, close_connection conn)) connections))
             (connection_pool s)\<rparr>"

definition size_session :: "cql_session_impl_t \<Rightarrow> nat" where
  "size_session s = sum_list (map (\<lambda>(ep, connections). length connections) (connection_pool s))"

definition empty_session :: "cql_session_impl_t \<Rightarrow> bool" where
  "empty_session s = (size_session s = 0)"

text \<open>The session as the constructor leaves it.\<close>

definition new_session :: "bool \<Rightarrow> cql_session_impl_t" where
  "new_session has_ready_callback =
     \<lparr>ready = False, defunct = False,
      ready_callback_set = has_ready_callback, ready_callback_calls = 0,
      clients_made = 0,
      connection_counters = Map.empty,
      connection_pool = [],
      trashcan = (\<lambda>ep. [])\<rparr>"

section \<open>Concrete sessions\<close>

text \<open>A small cluster on which the functions are run: one core connection per host, at
  most two connections per host that is not ignored and none for an ignored one, both
  request thresholds at 1, connections with two streams, and a network in which dialling
  10.0.0.1 fails.\<close>

definition example_options :: cql_pooling_options_t where
  "example_options =
     \<lparr>core_connections_per_host = (\<lambda>d. 1),
      max_connection_per_host = (\<lambda>d. case d of IGNORED \<Rightarrow> 0 | _ \<Rightarrow> 2),
      min_simultaneous_requests_per_connection_treshold = (\<lambda>d. 1),
      max_simultaneous_requests_per_connection_treshold = (\<lambda>d. 1)\<rparr>"

definition fresh_connection :: "nat \<Rightarrow> cql_connection_t" where
  "fresh_connection n =
     \<lparr>conn_id = n, conn_endpoint = [], healthy = True, closed = False,
      free_streams = [0, 1], used_streams = []\<rparr>"

definition host_a :: cql_host_t where
  "host_a = \<lparr>host_endpoint = ''10.0.0.1:9042'', host_distance = LOCAL, is_considerably_up = True\<rparr>"

definition host_b :: cql_host_t where
  "host_b = \<lparr>host_endpoint = ''10.0.0.2:9042'', host_distance = LOCAL, is_considerably_up = True\<rparr>"

definition host_down :: cql_host_t where
  "host_down = \<lparr>host_endpoint = ''10.0.0.3:9042'', host_distance = LOCAL, is_considerably_up = False\<rparr>"

definition host_ignored :: cql_host_t where
  "host_ignored = \<lparr>host_endpoint = ''10.0.0.4:9042'', host_distance = IGNORED, is_considerably_up = True\<rparr>"

definition example_configuration :: "cql_host_t list \<Rightarrow> cql_configuration_t" where
  "example_configuration plan =
     \<lparr>pooling_options = example_options, new_query_plan = plan,
      client_callback = fresh_connection,
      dial_succeeds = (\<lambda>ep. ep \<noteq> ''10.0.0.1:9042''),
      ndebug = False\<rparr>"

text \<open>A connection to 10.0.0.2 with one request in flight and no stream left.\<close>

definition busy_connection :: "nat \<Rightarrow> cql_connection_t" where
  "busy_connection n =
     \<lparr>conn_id = n, conn_endpoint = ''10.0.0.2:9042'', healthy = True, closed = False,
      free_streams = [], used_streams = [0]\<rparr>"

text \<open>The session after one successful dispatch to 10.0.0.2.\<close>

definition session_one :: cql_session_impl_t where
  "session_one = snd (get_connection (example_configuration [host_b]) (new_session True))"

text \<open>Connection operations that answer with the text of the request.\<close>

definition echo_operations :: connection_operations where
  "echo_operations =
     \<lparr>conn_query = (\<lambda>c q. \<lparr>error_library = False, error_message = [],
                               future_result = Some (query_string q)\<rparr>),
      conn_execute = (\<lambda>c m. \<lparr>error_library = False, error_message = [],
                                future_result = Some (prepared_id m)\<rparr>),
      conn_query_callback = (\<lambda>c q. query_stream q),
      conn_prepare_callback = (\<lambda>c q. query_stream q)\<rparr>"

section \<open>Properties of the dispatch loop\<close>

lemma connect_host_tried:
  "connect_host cfg host s tried = (st, s', tried') \<Longrightarrow>
     tried' = (if is_considerably_up host then tried @ [host_endpoint host] else tried)"
  by (auto simp: connect_host_def Let_def split: prod.splits option.splits sum.splits if_splits)

lemma allocate_connection_throws:
  "allocate_connection cfg host s = (Inl e, s') \<Longrightarrow>
     e = cql_too_many_connections_per_host_exception \<or>
     e = cql_exception (''cannot connect to host: '' @ host_endpoint host)"
  by (auto simp: allocate_connection_def Let_def split: prod.splits bool.splits if_splits)

lemma allocate_connection_returns:
  "allocate_connection cfg host s = (Inr r, s') \<Longrightarrow> r \<noteq> None"
  by (auto simp: allocate_connection_def Let_def split: prod.splits bool.splits if_splits)

lemma connect_host_thrown:
  "connect_host cfg host s tried = (Thrown e, s', tried') \<Longrightarrow>
     is_considerably_up host \<and>
     (e = cql_too_many_connections_per_host_exception \<or>
      e = cql_exception (''cannot connect to host: '' @ host_endpoint host))"
  by (auto simp: connect_host_def Let_def dest: allocate_connection_throws
       split: prod.splits option.splits sum.splits if_splits)

lemma connect_host_found:
  "connect_host cfg host s tried = (Found r, s', tried') \<Longrightarrow> fst r \<noteq> None"
  by (auto simp: connect_host_def Let_def
       split: prod.splits option.splits sum.splits if_splits)

lemma connect_host_down:
  "\<not> is_considerably_up host \<Longrightarrow> connect_host cfg host s tried = (Next_Host, s, tried)"
  by (simp add: connect_host_def)

lemma connect_no_viable_host:
  "\<forall>h\<in>set plan. \<not> is_considerably_up h \<Longrightarrow>
     connect cfg plan s tried =
       (Inl (cql_exception ''no host is available according to load balancing policy.''), s, tried)"
  by (induction plan) (simp_all add: connect_host_down)

lemma connect_returns_connection:
  "connect cfg plan s tried = (Inr r, s', tried') \<Longrightarrow> fst r \<noteq> None"
proof (induction plan arbitrary: s tried)
  case Nil
  then show ?case by simp
next
  case (Cons host plan)
  obtain st s1 tried1 where h: "connect_host cfg host s tried = (st, s1, tried1)"
    by (metis prod_cases3)
  show ?case
  proof (cases st)
    case Next_Host
    with Cons h show ?thesis by simp
  next
    case (Found x)
    with Cons.prems h connect_host_found [of cfg host s tried x s1 tried1] show ?thesis by simp
  next
    case (Thrown e)
    with Cons.prems h show ?thesis by simp
  qed
qed

section \<open>Properties of the search for a free stream\<close>

lemma free_connection_trashcan: "trashcan (snd (free_connection c s)) = trashcan s"
  by (simp add: free_connection_def Let_def split: option.splits)

lemma try_erase_length: "length (snd (try_erase k m)) \<le> length m"
  by (simp add: try_erase_def split: option.splits)

lemma store_length: "length (store k v m) = length m"
  by (simp add: store_def)

lemma visit_connection_length:
  "visit_connection cfg host kv connections s = (r, connections', s') \<Longrightarrow>
     length connections' \<le> length connections"
  using try_erase_length [of "fst kv" connections]
  by (auto simp: visit_connection_def Let_def try_remove_connection_def store_length
       split: prod.splits option.splits if_splits)

lemma visit_connection_trashcan:
  "visit_connection cfg host kv connections s = (r, connections', s') \<Longrightarrow>
     trashcan s' = trashcan s \<or>
     (trashcan s' = trashcan_put (snd kv) (trashcan s) \<and>
      is_healthy (snd kv) \<and>
      core_connections_per_host (pooling_options cfg) (host_distance host) < int (length connections) \<and>
      is_free (snd kv)
        (min_simultaneous_requests_per_connection_treshold (pooling_options cfg) (host_distance host)))"
  by (auto simp: visit_connection_def Let_def try_remove_connection_def free_connection_trashcan
       split: prod.splits option.splits if_splits)

lemma find_free_stream_loop_trashcan:
  "find_free_stream_loop cfg host snapshot connections s = (r, connections', s') \<Longrightarrow>
   length connections \<le> n \<Longrightarrow>
     \<exists>moved. trashcan s' ep = moved @ trashcan s ep \<and>
       (\<forall>c\<in>set moved.
          c \<in> snd ` set snapshot \<and> conn_endpoint c = ep \<and> is_healthy c \<and>
          core_connections_per_host (pooling_options cfg) (host_distance host) < int n \<and>
          is_free c
            (min_simultaneous_requests_per_connection_treshold (pooling_options cfg) (host_distance host)))"
proof (induction snapshot arbitrary: connections s)
  case Nil
  then show ?case by simp
next
  case (Cons kv rest)
  obtain v connections1 s1 where v: "visit_connection cfg host kv connections s = (v, connections1, s1)"
    by (metis prod_cases3)
  have len: "length connections1 \<le> n"
    using visit_connection_length [OF v] Cons.prems(2) by simp
  let ?P = "\<lambda>c. conn_endpoint c = ep \<and> is_healthy c \<and>
          core_connections_per_host (pooling_options cfg) (host_distance host) < int n \<and>
          is_free c
            (min_simultaneous_requests_per_connection_treshold (pooling_options cfg) (host_distance host))"
  have step: "\<exists>m1. trashcan s1 ep = m1 @ trashcan s ep \<and> (\<forall>c\<in>set m1. c = snd kv \<and> ?P c)"
  proof -
    from visit_connection_trashcan [OF v] show ?thesis
    proof
      assume "trashcan s1 = trashcan s"
      then have "trashcan s1 ep = [] @ trashcan s ep \<and> (\<forall>c\<in>set []. c = snd kv \<and> ?P c)" by simp
      then show ?thesis by blast
    next
      assume a: "trashcan s1 = trashcan_put (snd kv) (trashcan s) \<and>
      is_healthy (snd kv) \<and>
      core_connections_per_host (pooling_options cfg) (host_distance host) < int (length connections) \<and>
      is_free (snd kv)
        (min_simultaneous_requests_per_connection_treshold (pooling_options cfg) (host_distance host))"
      show ?thesis
      proof (cases "conn_endpoint (snd kv) = ep")
        case True
        with a Cons.prems(2) have "trashcan s1 ep = [snd kv] @ trashcan s ep \<and> (\<forall>c\<in>set [snd kv]. c = snd kv \<and> ?P c)"
          by (simp add: trashcan_put_def)
        then show ?thesis by blast
      next
        case False
        with a have "trashcan s1 ep = [] @ trashcan s ep \<and> (\<forall>c\<in>set []. c = snd kv \<and> ?P c)"
          by (simp add: trashcan_put_def)
        then show ?thesis by blast
      qed
    qed
  qed
  then obtain m1 where m1: "trashcan s1 ep = m1 @ trashcan s ep" "\<forall>c\<in>set m1. c = snd kv \<and> ?P c"
    by blast
  show ?case
  proof (cases v)
    case None
    with Cons.prems(1) v have "find_free_stream_loop cfg host rest connections1 s1 = (r, connections', s')"
      by simp
    from Cons.IH [OF this len] obtain m2 where
      m2: "trashcan s' ep = m2 @ trashcan s1 ep" "\<forall>c\<in>set m2. c \<in> snd ` set rest \<and> ?P c"
      by blast
    have "trashcan s' ep = (m2 @ m1) @ trashcan s ep" using m1(1) m2(1) by simp
    moreover have "\<forall>c\<in>set (m2 @ m1). c \<in> snd ` set (kv # rest) \<and> ?P c"
      using m1(2) m2(2) by auto
    ultimately show ?thesis by blast
  next
    case (Some a)
    with Cons.prems(1) v have "s' = s1" by (simp split: prod.splits)
    with m1 have "trashcan s' ep = m1 @ trashcan s ep" "\<forall>c\<in>set m1. c \<in> snd ` set (kv # rest) \<and> ?P c"
      by auto
    then show ?thesis by blast
  qed
qed

lemma find_free_stream_loop_keeps_trashcan:
  "find_free_stream_loop cfg host snapshot connections s = (r, connections', s') \<Longrightarrow>
   int (length connections) \<le> core_connections_per_host (pooling_options cfg) (host_distance host) \<Longrightarrow>
     trashcan s' = trashcan s"
proof (induction snapshot arbitrary: connections s)
  case Nil
  then show ?case by simp
next
  case (Cons kv rest)
  obtain v connections1 s1 where v: "visit_connection cfg host kv connections s = (v, connections1, s1)"
    by (metis prod_cases3)
  have len: "int (length connections1) \<le> core_connections_per_host (pooling_options cfg) (host_distance host)"
    using visit_connection_length [OF v] Cons.prems(2) by simp
  have same: "trashcan s1 = trashcan s"
    using visit_connection_trashcan [OF v] Cons.prems(2) by auto
  show ?case
  proof (cases v)
    case None
    with Cons.prems(1) v have "find_free_stream_loop cfg host rest connections1 s1 = (r, connections', s')"
      by simp
    from Cons.IH [OF this len] same show ?thesis by simp
  next
    case (Some a)
    with Cons.prems(1) v have "s' = s1" by (simp split: prod.splits)
    with same show ?thesis by simp
  qed
qed

lemma find_free_stream_loop_size_at_move:
  "find_free_stream_loop cfg host snapshot connections s = (r, connections', s') \<Longrightarrow>
     \<exists>moved. trashcan s' ep = moved @ trashcan s ep \<and>
       (\<forall>c\<in>set moved.
          \<exists>pre kv post current s_current.
            snapshot = pre @ kv # post \<and> snd kv = c \<and>
            find_free_stream_loop cfg host pre connections s
              = ((None, Invalid_Stream), current, s_current) \<and>
            core_connections_per_host (pooling_options cfg) (host_distance host)
              < int (length current))"
proof (induction snapshot arbitrary: connections s)
  case Nil
  then show ?case by simp
next
  case (Cons kv0 rest)
  let ?core = "core_connections_per_host (pooling_options cfg) (host_distance host)"
  obtain v connections1 s1 where v: "visit_connection cfg host kv0 connections s = (v, connections1, s1)"
    by (metis prod_cases3)
  let ?at = "\<lambda>snap c. \<exists>pre kv post current s_current.
            snap = pre @ kv # post \<and> snd kv = c \<and>
            find_free_stream_loop cfg host pre connections s
              = ((None, Invalid_Stream), current, s_current) \<and>
            ?core < int (length current)"
  have here: "?core < int (length connections) \<Longrightarrow> ?at (kv0 # rest) (snd kv0)"
  proof -
    assume a: "?core < int (length connections)"
    have "kv0 # rest = [] @ kv0 # rest \<and> snd kv0 = snd kv0 \<and>
            find_free_stream_loop cfg host [] connections s
              = ((None, Invalid_Stream), connections, s) \<and>
            ?core < int (length connections)"
      using a by simp
    then show ?thesis by blast
  qed
  have step: "\<exists>m1. trashcan s1 ep = m1 @ trashcan s ep \<and> (\<forall>c\<in>set m1. ?at (kv0 # rest) c)"
  proof -
    from visit_connection_trashcan [OF v] show ?thesis
    proof
      assume "trashcan s1 = trashcan s"
      then have "trashcan s1 ep = [] @ trashcan s ep \<and> (\<forall>c\<in>set []. ?at (kv0 # rest) c)" by simp
      then show ?thesis by blast
    next
      assume a: "trashcan s1 = trashcan_put (snd kv0) (trashcan s) \<and>
        is_healthy (snd kv0) \<and> ?core < int (length connections) \<and>
        is_free (snd kv0)
          (min_simultaneous_requests_per_connection_treshold (pooling_options cfg) (host_distance host))"
      then have h: "?at (kv0 # rest) (snd kv0)" using here by blast
      show ?thesis
      proof (cases "conn_endpoint (snd kv0) = ep")
        case True
        with a h have "trashcan s1 ep = [snd kv0] @ trashcan s ep \<and> (\<forall>c\<in>set [snd kv0]. ?at (kv0 # rest) c)"
          by (simp add: trashcan_put_def)
        then show ?thesis by blast
      next
        case False
        with a have "trashcan s1 ep = [] @ trashcan s ep \<and> (\<forall>c\<in>set []. ?at (kv0 # rest) c)"
          by (simp add: trashcan_put_def)
        then show ?thesis by blast
      qed
    qed
  qed
  then obtain m1 where m1: "trashcan s1 ep = m1 @ trashcan s ep" "\<forall>c\<in>set m1. ?at (kv0 # rest) c"
    by blast
  show ?case
  proof (cases v)
    case None
    with Cons.prems v have run: "find_free_stream_loop cfg host rest connections1 s1 = (r, connections', s')"
      by simp
    from Cons.IH [OF run] obtain m2 where
      m2: "trashcan s' ep = m2 @ trashcan s1 ep"
      and p2: "\<forall>c\<in>set m2. \<exists>pre kv post current s_current.
            rest = pre @ kv # post \<and> snd kv = c \<and>
            find_free_stream_loop cfg host pre connections1 s1
              = ((None, Invalid_Stream), current, s_current) \<and>
            ?core < int (length current)"
      by blast
    have lift: "?at (kv0 # rest) c" if "c \<in> set m2" for c
    proof -
      from p2 that obtain pre kv post current s_current where
        q: "rest = pre @ kv # post" "snd kv = c"
           "find_free_stream_loop cfg host pre connections1 s1
              = ((None, Invalid_Stream), current, s_current)"
           "?core < int (length current)"
        by blast
      have "find_free_stream_loop cfg host (kv0 # pre) connections s
              = ((None, Invalid_Stream), current, s_current)"
        using v None q(3) by simp
      moreover have "kv0 # rest = (kv0 # pre) @ kv # post" using q(1) by simp
      ultimately show ?thesis using q(2) q(4) by blast
    qed
    have "trashcan s' ep = (m2 @ m1) @ trashcan s ep" using m1(1) m2 by simp
    moreover have "\<forall>c\<in>set (m2 @ m1). ?at (kv0 # rest) c"
      using m1(2) lift by auto
    ultimately show ?thesis by blast
  next
    case (Some a)
    with Cons.prems v have "s' = s1" by (simp split: prod.splits)
    with m1 show ?thesis by blast
  qed
qed

section \<open>Properties of the counters, the callbacks and \<open>close\<close>\<close>

lemma increase_connection_counter_existing:
  assumes "connection_counters s (host_endpoint host) = Some counter"
      and "increase_connection_counter cfg host s = (ok, s')"
  shows "connection_counters s' (host_endpoint host)
           = Some (if counter + 1 > get_max_connections_number cfg host then counter else counter + 1)"
    and "ok = (\<not> counter + 1 > get_max_connections_number cfg host)"
  using assms by (auto simp: increase_connection_counter_def Let_def split: if_splits)

lemma close_size: "size_session (close s) = size_session s"
  by (simp add: size_session_def close_def comp_def case_prod_unfold)

lemma close_counters: "connection_counters (close s) = connection_counters s"
  by (simp add: close_def)

lemma close_closes:
  "(ep, connections) \<in> set (connection_pool (close s)) \<Longrightarrow>
   (k, c) \<in> set connections \<Longrightarrow> closed c"
  by (auto simp: close_def close_connection_def)

lemma close_idempotent: "close (close s) = close s"
  by (simp add: close_def close_connection_def comp_def case_prod_unfold)

lemma connect_callback_fields:
  "ready (connect_callback s)"
  "\<not> defunct (connect_callback s)"
  "ready_callback_set (connect_callback s) = ready_callback_set s"
  "ready_callback_calls (connect_callback s)
     = ready_callback_calls s + (if ready_callback_set s then 1 else 0)"
  by (simp_all add: connect_callback_def Let_def)

lemma connect_callback_iterated:
  "ready_callback_set ((connect_callback ^^ n) s) = ready_callback_set s \<and>
   ready_callback_calls ((connect_callback ^^ n) s)
     = ready_callback_calls s + (if ready_callback_set s then n else 0)"
  by (induction n) (simp_all add: connect_callback_fields)

lemma get_connection_not_null:
  "get_connection cfg s = (Inr (c, st), s') \<Longrightarrow> c \<noteq> None"
  using connect_returns_connection [of cfg "new_query_plan cfg" s "[]" "(c, st)"]
  by (auto simp: get_connection_def split: prod.splits)

section \<open>The claims of the specification\<close>

text \<open>C1 (a failed dial is recovered at the next host of the plan). The code does not do
  this: with the plan 10.0.0.1, 10.0.0.2, both hosts up and only the dial to 10.0.0.1
  failing, \<open>connect\<close> ends with the exception of \<open>allocate_connection\<close> for 10.0.0.1. The
  counter of 10.0.0.1 is back at 0 and the endpoint is in the list of tried hosts, but
  10.0.0.2 is never visited: the pool has no collection for it. The \<open>continue\<close> that
  follows the call of \<open>allocate_connection\<close> in the source is never reached.\<close>

theorem connect_aborts_at_first_failed_dial:
  "fst (connect (example_configuration []) [host_a, host_b] (new_session False) [])
     = Inl (cql_exception ''cannot connect to host: 10.0.0.1:9042'') \<and>
   snd (snd (connect (example_configuration []) [host_a, host_b] (new_session False) []))
     = [''10.0.0.1:9042''] \<and>
   connection_counters (fst (snd (connect (example_configuration []) [host_a, host_b] (new_session False) [])))
     ''10.0.0.1:9042'' = Some 0 \<and>
   connection_pool (fst (snd (connect (example_configuration []) [host_a, host_b] (new_session False) [])))
     = [(''10.0.0.1:9042'', [])] \<and>
   dial_succeeds (example_configuration []) (host_endpoint host_b) \<and>
   is_considerably_up host_b"
  by code_simp

text \<open>C2 (the counter of an endpoint never exceeds the maximum for its distance, also on
  the first allocation with a maximum of 0). The code does not do this: when the endpoint
  has no counter yet, \<open>increase_connection_counter\<close> installs a counter of 1 and returns
  true without comparing it with the maximum. For an ignored host, whose maximum is 0, the
  counter is 1 afterwards and \<open>allocate_connection\<close> hands out a connection.\<close>

theorem first_allocation_ignores_cap:
  "get_max_connections_number (example_configuration []) host_ignored = 0 \<and>
   connection_counters (new_session False) (host_endpoint host_ignored) = None \<and>
   fst (increase_connection_counter (example_configuration []) host_ignored (new_session False)) = True \<and>
   connection_counters
     (snd (increase_connection_counter (example_configuration []) host_ignored (new_session False)))
     (host_endpoint host_ignored) = Some 1 \<and>
   fst (allocate_connection (example_configuration []) host_ignored (new_session False))
     = Inr (Some ((fresh_connection 0)\<lparr>conn_endpoint := host_endpoint host_ignored\<rparr>)) \<and>
   connection_counters
     (snd (allocate_connection (example_configuration []) host_ignored (new_session False)))
     (host_endpoint host_ignored) = Some 1"
  by code_simp

text \<open>C3 (\<open>try_find_free_stream\<close> moves a connection to the trashcan only above the core
  size). Whatever \<open>try_find_free_stream\<close> returns, the trashcan of every endpoint is
  afterwards what it was with some connections put in front. Each of these is a
  connection of the collection that is healthy and free at the minimum threshold (its
  in-flight count is at or below \<open>min_simultaneous_requests_per_connection\<close>), and at
  the moment it was moved the collection had strictly more connections than
  \<open>core_connections_per_host\<close>: the collection as the loop had left it after the
  entries before this one, which is what \<open>connections->size()\<close> reads in that round. The
  collection the function was entered with is then larger than the core size as well,
  and when it has exactly \<open>core_connections_per_host\<close> connections the trashcan is left
  as it was.\<close>

theorem try_find_free_stream_trashes_above_core_only:
  assumes "try_find_free_stream cfg host connections s = (r, connections', s')"
  shows "(\<forall>ep. \<exists>moved. trashcan s' ep = moved @ trashcan s ep \<and>
            (\<forall>c\<in>set moved.
               c \<in> snd ` set connections \<and> is_healthy c \<and>
               core_connections_per_host (pooling_options cfg) (host_distance host)
                 < int (length connections) \<and>
               is_free c
                 (min_simultaneous_requests_per_connection_treshold (pooling_options cfg) (host_distance host)) \<and>
               int (in_flight c)
                 \<le> min_simultaneous_requests_per_connection_treshold (pooling_options cfg) (host_distance host) \<and>
               (\<exists>pre kv post current s_current.
                  connections = pre @ kv # post \<and> snd kv = c \<and>
                  find_free_stream_loop cfg host pre connections s
                    = ((None, Invalid_Stream), current, s_current) \<and>
                  core_connections_per_host (pooling_options cfg) (host_distance host)
                    < int (length current)))) \<and>
         (int (length connections) = core_connections_per_host (pooling_options cfg) (host_distance host)
            \<longrightarrow> trashcan s' = trashcan s)"
proof -
  let ?core = "core_connections_per_host (pooling_options cfg) (host_distance host)"
  let ?min = "min_simultaneous_requests_per_connection_treshold (pooling_options cfg) (host_distance host)"
  from assms have l: "find_free_stream_loop cfg host connections connections s = (r, connections', s')"
    by (simp add: try_find_free_stream_def)
  have "\<exists>moved. trashcan s' ep = moved @ trashcan s ep \<and>
            (\<forall>c\<in>set moved.
               c \<in> snd ` set connections \<and> is_healthy c \<and> ?core < int (length connections) \<and>
               is_free c ?min \<and> int (in_flight c) \<le> ?min \<and>
               (\<exists>pre kv post current s_current.
                  connections = pre @ kv # post \<and> snd kv = c \<and>
                  find_free_stream_loop cfg host pre connections s
                    = ((None, Invalid_Stream), current, s_current) \<and>
                  ?core < int (length current)))" for ep
  proof -
    from find_free_stream_loop_trashcan [OF l order_refl, of ep] obtain m where
      m: "trashcan s' ep = m @ trashcan s ep"
      and pm: "\<forall>c\<in>set m. c \<in> snd ` set connections \<and> conn_endpoint c = ep \<and> is_healthy c \<and>
                 ?core < int (length connections) \<and> is_free c ?min"
      by blast
    from find_free_stream_loop_size_at_move [OF l, of ep] obtain m' where
      m': "trashcan s' ep = m' @ trashcan s ep"
      and pm': "\<forall>c\<in>set m'. \<exists>pre kv post current s_current.
                  connections = pre @ kv # post \<and> snd kv = c \<and>
                  find_free_stream_loop cfg host pre connections s
                    = ((None, Invalid_Stream), current, s_current) \<and>
                  ?core < int (length current)"
      by blast
    from m m' have "m' = m" by simp
    with pm pm' have "\<forall>c\<in>set m.
               c \<in> snd ` set connections \<and> is_healthy c \<and> ?core < int (length connections) \<and>
               is_free c ?min \<and> int (in_flight c) \<le> ?min \<and>
               (\<exists>pre kv post current s_current.
                  connections = pre @ kv # post \<and> snd kv = c \<and>
                  find_free_stream_loop cfg host pre connections s
                    = ((None, Invalid_Stream), current, s_current) \<and>
                  ?core < int (length current))"
      unfolding is_free_def by blast
    with m show ?thesis by blast
  qed
  moreover have "int (length connections) = ?core \<longrightarrow> trashcan s' = trashcan s"
    using find_free_stream_loop_keeps_trashcan [OF l] by simp
  ultimately show ?thesis by blast
qed

theorem try_find_free_stream_trashes_above_core_only_witness:
  "trashcan (snd (snd (try_find_free_stream (example_configuration []) host_b
       [(0, busy_connection 0), (1, busy_connection 1), (2, busy_connection 2)] (new_session False))))
     ''10.0.0.2:9042'' = [busy_connection 1, busy_connection 0] \<and>
   fst (snd (try_find_free_stream (example_configuration []) host_b
       [(0, busy_connection 0), (1, busy_connection 1), (2, busy_connection 2)] (new_session False)))
     = [(2, busy_connection 2)] \<and>
   is_healthy (busy_connection 1) \<and>
   int (in_flight (busy_connection 1))
     \<le> min_simultaneous_requests_per_connection_treshold
          (pooling_options (example_configuration [])) (host_distance host_b) \<and>
   (\<exists>pre kv post current s_current.
      [(0::nat, busy_connection 0), (1, busy_connection 1), (2, busy_connection 2)] = pre @ kv # post \<and>
      snd kv = busy_connection 1 \<and>
      find_free_stream_loop (example_configuration []) host_b pre
        [(0, busy_connection 0), (1, busy_connection 1), (2, busy_connection 2)] (new_session False)
        = ((None, Invalid_Stream), current, s_current) \<and>
      core_connections_per_host (pooling_options (example_configuration [])) (host_distance host_b)
        < int (length current)) \<and>
   int (length [(0::nat, busy_connection 0)])
     = core_connections_per_host (pooling_options (example_configuration [])) (host_distance host_b) \<and>
   trashcan (snd (snd (try_find_free_stream (example_configuration []) host_b
       [(0, busy_connection 0)] (new_session False)))) = trashcan (new_session False)"
proof -
  let ?s = "new_session False"
  let ?cfg = "example_configuration []"
  let ?cs = "[(0::nat, busy_connection 0), (1, busy_connection 1), (2, busy_connection 2)]"
  let ?X = "try_find_free_stream ?cfg host_b ?cs ?s"
  let ?core = "core_connections_per_host (pooling_options ?cfg) (host_distance host_b)"
  let ?min = "min_simultaneous_requests_per_connection_treshold (pooling_options ?cfg) (host_distance host_b)"
  have t: "trashcan (snd (snd ?X)) ''10.0.0.2:9042'' = [busy_connection 1, busy_connection 0]"
    by code_simp
  have k: "fst (snd ?X) = [(2, busy_connection 2)]"
    by code_simp
  have t0: "trashcan ?s ''10.0.0.2:9042'' = []"
    by (simp add: new_session_def)
  have "?X = (fst ?X, fst (snd ?X), snd (snd ?X))" by simp
  from try_find_free_stream_trashes_above_core_only [OF this, THEN conjunct1, THEN spec, of "''10.0.0.2:9042''"]
  obtain moved where m: "trashcan (snd (snd ?X)) ''10.0.0.2:9042'' = moved @ trashcan ?s ''10.0.0.2:9042''"
    and p: "\<forall>c\<in>set moved. is_healthy c \<and> int (in_flight c) \<le> ?min \<and>
               (\<exists>pre kv post current s_current.
                  ?cs = pre @ kv # post \<and> snd kv = c \<and>
                  find_free_stream_loop ?cfg host_b pre ?cs ?s = ((None, Invalid_Stream), current, s_current) \<and>
                  ?core < int (length current))"
    by blast
  from m t t0 have "moved = [busy_connection 1, busy_connection 0]" by simp
  with p have above: "is_healthy (busy_connection 1) \<and> int (in_flight (busy_connection 1)) \<le> ?min \<and>
               (\<exists>pre kv post current s_current.
                  ?cs = pre @ kv # post \<and> snd kv = busy_connection 1 \<and>
                  find_free_stream_loop ?cfg host_b pre ?cs ?s = ((None, Invalid_Stream), current, s_current) \<and>
                  ?core < int (length current))"
    by simp
  let ?one = "[(0::nat, busy_connection 0)]"
  let ?Y = "try_find_free_stream ?cfg host_b ?one ?s"
  have core: "int (length ?one) = ?core"
    by (simp add: example_configuration_def example_options_def)
  have "?Y = (fst ?Y, fst (snd ?Y), snd (snd ?Y))" by simp
  from try_find_free_stream_trashes_above_core_only [OF this, THEN conjunct2] core
  have "trashcan (snd (snd ?Y)) = trashcan ?s" by blast
  with above core t k show ?thesis by blast
qed

text \<open>C4 (after \<open>close\<close> the pool is empty, \<open>size\<close> is 0 and the counters reflect the
  removals). The code does not do this: \<open>close\<close> calls \<open>close()\<close> on the pooled
  connections and leaves the pool and the counters as they were. On the session with one
  pooled connection to 10.0.0.2, \<open>size\<close> is 1 before and after, the counter stays 1, and
  the one connection is closed.\<close>

theorem close_keeps_pool_and_counters:
  "size_session session_one = 1 \<and>
   size_session (close session_one) = 1 \<and>
   connection_counters session_one ''10.0.0.2:9042'' = Some 1 \<and>
   connection_counters (close session_one) ''10.0.0.2:9042'' = Some 1 \<and>
   connection_pool (close session_one)
     = [(''10.0.0.2:9042'',
         [(0, \<lparr>conn_id = 0, conn_endpoint = ''10.0.0.2:9042'', healthy = True, closed = True,
                free_streams = [1], used_streams = [0]\<rparr>)])]"
  by code_simp

text \<open>C5 (hosts that are not up are not recorded as tried; hosts whose dial fails are
  recorded and reported with the no-host-available error). The code does not do the
  second part: on the plan 10.0.0.3 (not up), 10.0.0.1 (dial fails), 10.0.0.2, the host
  that is not up is skipped and not recorded and 10.0.0.1 is recorded, but the dispatch
  ends there with the exception of the failed dial, not with the no-host-available
  exception, and \<open>get_connection\<close> hands on that exception without the list.\<close>

theorem failed_dial_is_not_no_host_available:
  "fst (connect (example_configuration []) [host_down, host_a, host_b] (new_session False) [])
     = Inl (cql_exception ''cannot connect to host: 10.0.0.1:9042'') \<and>
   fst (connect (example_configuration []) [host_down, host_a, host_b] (new_session False) [])
     \<noteq> Inl (cql_exception ''no host is available according to load balancing policy.'') \<and>
   snd (snd (connect (example_configuration []) [host_down, host_a, host_b] (new_session False) []))
     = [''10.0.0.1:9042''] \<and>
   fst (get_connection (example_configuration [host_down, host_a, host_b]) (new_session False))
     = Inl (cql_exception ''cannot connect to host: 10.0.0.1:9042'')"
  by code_simp

text \<open>C6 (a dispatch whose plan yields no viable host fails with the no-host-available
  error carrying the list of tried endpoints). The code does not do this: with the one
  host 10.0.0.1, whose dial fails, \<open>init\<close> fails with the exception of the failed dial;
  the endpoint is in the list \<open>connect\<close> has filled, which \<open>init\<close> drops. On the empty
  plan \<open>init\<close> fails with the exception ``no host is available according to load
  balancing policy.'', which holds a message and nothing else.\<close>

theorem exhausted_plan_is_not_no_host_available:
  "fst (init (example_configuration [host_a]) (new_session False))
     = Inl (cql_exception ''cannot connect to host: 10.0.0.1:9042'') \<and>
   fst (init (example_configuration [host_a]) (new_session False))
     \<noteq> Inl (cql_exception ''no host is available according to load balancing policy.'') \<and>
   snd (snd (connect (example_configuration [host_a]) (new_query_plan (example_configuration [host_a]))
               (new_session False) []))
     = [''10.0.0.1:9042''] \<and>
   fst (init (example_configuration []) (new_session False))
     = Inl (cql_exception ''no host is available according to load balancing policy.'')"
  by code_simp

text \<open>C7 (\<open>ready_callback\<close> fires at most once per transition of the ready flag). As stated
  this fails: a second successful connect finds the session ready and the callback fires
  again.\<close>

theorem ready_callback_fires_again_when_ready:
  "ready (connect_callback (new_session True)) \<and>
   ready_callback_calls (connect_callback (new_session True)) = 1 \<and>
   ready (connect_callback (connect_callback (new_session True))) \<and>
   ready_callback_calls (connect_callback (connect_callback (new_session True))) = 2"
  by (simp add: connect_callback_def new_session_def)

text \<open>C7, amended. When a ready callback is registered, \<open>connect_callback\<close> calls it at
  every successful connect completion, whether or not the session was ready before:
  after \<open>n\<close> completions it has been called \<open>n\<close> more times, and the session is ready
  after each of them.\<close>

theorem ready_callback_fires_at_every_completion:
  assumes "ready_callback_set s"
  shows "ready_callback_calls ((connect_callback ^^ n) s) = ready_callback_calls s + n \<and>
         ready (connect_callback s) \<and>
         ready_callback_calls (connect_callback s) = Suc (ready_callback_calls s)"
  using assms connect_callback_iterated [of n s] by (simp add: connect_callback_fields)

theorem ready_callback_fires_at_every_completion_witness:
  "ready_callback_set (new_session True) \<and>
   ready_callback_calls ((connect_callback ^^ 3) (new_session True)) = 3"
proof -
  have h: "ready_callback_set (new_session True)" by (simp add: new_session_def)
  from ready_callback_fires_at_every_completion [OF h, of 3] h show ?thesis
    by (simp add: new_session_def)
qed

text \<open>C8 (allocate, then free, leaves the counter of the endpoint unchanged). After a
  successful \<open>increase_connection_counter\<close> for a host and \<open>free_connection\<close> of a
  connection with that host's endpoint, the counters are the original ones, with the
  endpoint's counter at its original value (0 when the endpoint had no counter before);
  the connection has been closed.\<close>

theorem allocate_then_free_restores_counter:
  assumes "increase_connection_counter cfg host s = (True, s1)"
      and "conn_endpoint c = host_endpoint host"
  shows "connection_counters (snd (free_connection (Some c) s1))
           = (connection_counters s)
               (host_endpoint host \<mapsto>
                  (case connection_counters s (host_endpoint host) of None \<Rightarrow> 0 | Some counter \<Rightarrow> counter)) \<and>
         fst (free_connection (Some c) s1) = Some (close_connection c)"
  using assms
  by (auto simp: increase_connection_counter_def free_connection_def Let_def
           split: option.splits if_splits)

theorem allocate_then_free_restores_counter_witness:
  "connection_counters
     (snd (free_connection (Some (busy_connection 7))
        (snd (increase_connection_counter (example_configuration []) host_b session_one))))
     ''10.0.0.2:9042'' = Some 1 \<and>
   connection_counters session_one ''10.0.0.2:9042'' = Some 1 \<and>
   connection_counters
     (snd (increase_connection_counter (example_configuration []) host_b session_one))
     ''10.0.0.2:9042'' = Some 2"
proof -
  let ?s1 = "snd (increase_connection_counter (example_configuration []) host_b session_one)"
  have a: "fst (increase_connection_counter (example_configuration []) host_b session_one) = True"
    by code_simp
  then have i: "increase_connection_counter (example_configuration []) host_b session_one = (True, ?s1)"
    by (simp add: prod_eq_iff)
  have e: "conn_endpoint (busy_connection 7) = host_endpoint host_b"
    by (simp add: busy_connection_def host_b_def)
  have c0: "connection_counters session_one ''10.0.0.2:9042'' = Some 1" by code_simp
  have c1: "connection_counters ?s1 ''10.0.0.2:9042'' = Some 2" by code_simp
  have h: "host_endpoint host_b = ''10.0.0.2:9042''" by (simp add: host_b_def)
  from allocate_then_free_restores_counter [OF i e] c0 c1 h show ?thesis by simp
qed

text \<open>C9 (\<open>execute\<close> of a prepared statement returns a future). As stated this fails:
  once a connection has been obtained both overloads stop at \<open>assert(0)\<close>, and when
  none can be obtained the exception of \<open>connect\<close> leaves the function.\<close>

theorem execute_aborts:
  "fst (execute echo_operations (example_configuration [host_b])
          \<lparr>prepared_id = ''p'', bound_values = []\<rparr> (new_session False)) = Inl assertion_failed \<and>
   fst (execute_callback (example_configuration [host_b])
          \<lparr>prepared_id = ''p'', bound_values = []\<rparr> (new_session False)) = Inl assertion_failed \<and>
   fst (execute echo_operations (example_configuration [])
          \<lparr>prepared_id = ''p'', bound_values = []\<rparr> (new_session False))
     = Inl (cql_exception ''no host is available according to load balancing policy.'')"
  by code_simp

text \<open>C9, amended. In a build with assertions neither overload of \<open>execute\<close> returns.
  When \<open>connect\<close>, started on the policy's plan and an empty list of tried hosts, hands
  back a connection, both overloads fail the assertion; in a build with \<open>NDEBUG\<close> the
  overload returning a future then returns the future of the connection's own
  \<open>execute\<close>, and the overload taking callbacks the invalid stream. When \<open>connect\<close>
  throws, both overloads throw the same exception. \<open>connect\<close> never hands back a null
  connection, so the library error is never placed in a future.\<close>

theorem execute_outcomes:
  "(\<not> ndebug cfg \<longrightarrow>
      (\<forall>f. fst (execute ops cfg message s) \<noteq> Inr f) \<and>
      (\<forall>st. fst (execute_callback cfg message s) \<noteq> Inr st)) \<and>
   (\<forall>c st s'. get_connection cfg s = (Inr (Some c, st), s') \<longrightarrow>
      execute ops cfg message s =
        (if ndebug cfg then Inr (conn_execute ops c message) else Inl assertion_failed, s')) \<and>
   (\<forall>e s'. get_connection cfg s = (Inl e, s') \<longrightarrow> execute ops cfg message s = (Inl e, s')) \<and>
   (\<forall>st s'. get_connection cfg s \<noteq> (Inr (None, st), s')) \<and>
   (\<forall>c st s' tried_hosts.
      connect cfg (new_query_plan cfg) s [] = (Inr (Some c, st), s', tried_hosts) \<longrightarrow>
        execute ops cfg message s =
          (if ndebug cfg then Inr (conn_execute ops c message) else Inl assertion_failed, s') \<and>
        execute_callback cfg message s =
          (if ndebug cfg then Inr Invalid_Stream else Inl assertion_failed, s')) \<and>
   (\<forall>e s' tried_hosts.
      connect cfg (new_query_plan cfg) s [] = (Inl e, s', tried_hosts) \<longrightarrow>
        execute ops cfg message s = (Inl e, s') \<and>
        execute_callback cfg message s = (Inl e, s')) \<and>
   (\<forall>st s' tried_hosts.
      connect cfg (new_query_plan cfg) s [] \<noteq> (Inr (None, st), s', tried_hosts))"
proof -
  have 1: "\<not> ndebug cfg \<longrightarrow>
      (\<forall>f. fst (execute ops cfg message s) \<noteq> Inr f) \<and>
      (\<forall>st. fst (execute_callback cfg message s) \<noteq> Inr st)"
    by (auto simp: execute_def execute_callback_def split: prod.splits sum.splits)
  have 2: "\<forall>c st s'. get_connection cfg s = (Inr (Some c, st), s') \<longrightarrow>
      execute ops cfg message s =
        (if ndebug cfg then Inr (conn_execute ops c message) else Inl assertion_failed, s')"
    by (simp add: execute_def)
  have 3: "\<forall>e s'. get_connection cfg s = (Inl e, s') \<longrightarrow> execute ops cfg message s = (Inl e, s')"
    by (simp add: execute_def)
  have 4: "\<forall>st s'. get_connection cfg s \<noteq> (Inr (None, st), s')"
    using get_connection_not_null by blast
  have 5: "\<forall>c st s' tried_hosts.
      connect cfg (new_query_plan cfg) s [] = (Inr (Some c, st), s', tried_hosts) \<longrightarrow>
        execute ops cfg message s =
          (if ndebug cfg then Inr (conn_execute ops c message) else Inl assertion_failed, s') \<and>
        execute_callback cfg message s =
          (if ndebug cfg then Inr Invalid_Stream else Inl assertion_failed, s')"
    by (simp add: execute_def execute_callback_def get_connection_def)
  have 6: "\<forall>e s' tried_hosts.
      connect cfg (new_query_plan cfg) s [] = (Inl e, s', tried_hosts) \<longrightarrow>
        execute ops cfg message s = (Inl e, s') \<and>
        execute_callback cfg message s = (Inl e, s')"
    by (simp add: execute_def execute_callback_def get_connection_def)
  have 7: "\<forall>st s' tried_hosts.
      connect cfg (new_query_plan cfg) s [] \<noteq> (Inr (None, st), s', tried_hosts)"
    using connect_returns_connection [of cfg "new_query_plan cfg" s "[]"] by fastforce
  from 1 2 3 4 5 6 7 show ?thesis by blast
qed

theorem execute_outcomes_witness:
  "\<not> ndebug (example_configuration [host_b]) \<and>
   fst (execute echo_operations (example_configuration [host_b])
          \<lparr>prepared_id = ''p'', bound_values = []\<rparr> (new_session False)) = Inl assertion_failed \<and>
   fst (execute_callback (example_configuration [host_b])
          \<lparr>prepared_id = ''p'', bound_values = []\<rparr> (new_session False)) = Inl assertion_failed \<and>
   fst (execute echo_operations (example_configuration [])
          \<lparr>prepared_id = ''p'', bound_values = []\<rparr> (new_session False))
     = Inl (cql_exception ''no host is available according to load balancing policy.'') \<and>
   fst (execute_callback (example_configuration [])
          \<lparr>prepared_id = ''p'', bound_values = []\<rparr> (new_session False))
     = Inl (cql_exception ''no host is available according to load balancing policy.'')"
proof -
  let ?cfg = "example_configuration [host_b]"
  let ?other = "example_configuration []"
  let ?s = "new_session False"
  let ?m = "\<lparr>prepared_id = ''p'', bound_values = []\<rparr>"
  let ?c = "\<lparr>conn_id = 0, conn_endpoint = ''10.0.0.2:9042'', healthy = True,
           closed = False, free_streams = [1], used_streams = [0]\<rparr>"
  let ?X = "connect ?cfg (new_query_plan ?cfg) ?s []"
  let ?Z = "connect ?other (new_query_plan ?other) ?s []"
  have n: "\<not> ndebug ?cfg" by (simp add: example_configuration_def)
  have "fst ?X = Inr (Some ?c, Stream 0)" by code_simp
  then have g: "?X = (Inr (Some ?c, Stream 0), fst (snd ?X), snd (snd ?X))"
    by (simp add: prod_eq_iff)
  have "fst ?Z = Inl (cql_exception ''no host is available according to load balancing policy.'')"
    by code_simp
  then have z: "?Z = (Inl (cql_exception ''no host is available according to load balancing policy.''),
                       fst (snd ?Z), snd (snd ?Z))"
    by (simp add: prod_eq_iff)
  note a = execute_outcomes [of ?cfg echo_operations ?m ?s]
  note b = execute_outcomes [of ?other echo_operations ?m ?s]
  note a5 = a [THEN conjunct2, THEN conjunct2, THEN conjunct2, THEN conjunct2, THEN conjunct1,
                rule_format, OF g]
  note b6 = b [THEN conjunct2, THEN conjunct2, THEN conjunct2, THEN conjunct2, THEN conjunct2,
                THEN conjunct1, rule_format, OF z]
  from a5 n have
    "fst (execute echo_operations ?cfg ?m ?s) = Inl assertion_failed \<and>
     fst (execute_callback ?cfg ?m ?s) = Inl assertion_failed"
    by simp
  moreover from b6 have
    "fst (execute echo_operations ?other ?m ?s)
       = Inl (cql_exception ''no host is available according to load balancing policy.'') \<and>
     fst (execute_callback ?other ?m ?s)
       = Inl (cql_exception ''no host is available according to load balancing policy.'')"
    by simp
  ultimately show ?thesis using n by blast
qed

text \<open>C10 (the future-returning \<open>prepare\<close> equals the future-returning \<open>query\<close>, and on
  failure both return a future with the same library error). As stated this fails in its
  last part: when no connection can be obtained, \<open>prepare\<close> and \<open>query\<close> both throw the
  exception of \<open>connect\<close>; neither returns a future.\<close>

theorem prepare_and_query_throw_on_failure:
  "fst (prepare echo_operations (example_configuration [])
          \<lparr>query_string = ''SELECT 1'', query_stream = Invalid_Stream\<rparr> (new_session False))
     = Inl (cql_exception ''no host is available according to load balancing policy.'') \<and>
   fst (query echo_operations (example_configuration [])
          \<lparr>query_string = ''SELECT 1'', query_stream = Invalid_Stream\<rparr> (new_session False))
     = Inl (cql_exception ''no host is available according to load balancing policy.'') \<and>
   fst (prepare echo_operations (example_configuration [host_a])
          \<lparr>query_string = ''SELECT 1'', query_stream = Invalid_Stream\<rparr> (new_session False))
     = Inl (cql_exception ''cannot connect to host: 10.0.0.1:9042'') \<and>
   fst (query echo_operations (example_configuration [host_a])
          \<lparr>query_string = ''SELECT 1'', query_stream = Invalid_Stream\<rparr> (new_session False))
     = Inl (cql_exception ''cannot connect to host: 10.0.0.1:9042'') \<and>
   fst (prepare echo_operations (example_configuration [])
          \<lparr>query_string = ''SELECT 1'', query_stream = Invalid_Stream\<rparr> (new_session False))
     \<noteq> Inr library_error_future"
  by code_simp

text \<open>C10, amended. For every request and session, the future-returning \<open>prepare\<close> and
  \<open>query\<close> give the same outcome and the same session, and \<open>prepare\<close> does not depend
  on the connection's prepare operation. When \<open>connect\<close>, started on the policy's plan and
  an empty list of tried hosts, hands back a connection and a stream, both return the
  future of the connection's query operation on the request with that stream set; when
  \<open>connect\<close> throws, both throw the same exception; \<open>connect\<close> never hands back a null
  connection, so neither returns the library-error future.\<close>

theorem prepare_is_query:
  "prepare ops cfg a_query s = query ops cfg a_query s \<and>
   prepare (ops\<lparr>conn_prepare_callback := f\<rparr>) cfg a_query s = prepare ops cfg a_query s \<and>
   (\<forall>c st s' tried_hosts.
      connect cfg (new_query_plan cfg) s [] = (Inr (Some c, st), s', tried_hosts) \<longrightarrow>
        prepare ops cfg a_query s = (Inr (conn_query ops c (a_query\<lparr>query_stream := st\<rparr>)), s') \<and>
        query ops cfg a_query s = (Inr (conn_query ops c (a_query\<lparr>query_stream := st\<rparr>)), s')) \<and>
   (\<forall>e s' tried_hosts.
      connect cfg (new_query_plan cfg) s [] = (Inl e, s', tried_hosts) \<longrightarrow>
        prepare ops cfg a_query s = (Inl e, s') \<and> query ops cfg a_query s = (Inl e, s')) \<and>
   (\<forall>st s' tried_hosts.
      connect cfg (new_query_plan cfg) s [] \<noteq> (Inr (None, st), s', tried_hosts))"
proof -
  have 1: "prepare ops cfg a_query s = query ops cfg a_query s \<and>
   prepare (ops\<lparr>conn_prepare_callback := f\<rparr>) cfg a_query s = prepare ops cfg a_query s"
    by (simp add: prepare_def query_def split: prod.splits sum.splits option.splits)
  have 2: "\<forall>c st s' tried_hosts.
      connect cfg (new_query_plan cfg) s [] = (Inr (Some c, st), s', tried_hosts) \<longrightarrow>
        prepare ops cfg a_query s = (Inr (conn_query ops c (a_query\<lparr>query_stream := st\<rparr>)), s') \<and>
        query ops cfg a_query s = (Inr (conn_query ops c (a_query\<lparr>query_stream := st\<rparr>)), s')"
    by (simp add: prepare_def query_def get_connection_def)
  have 3: "\<forall>e s' tried_hosts.
      connect cfg (new_query_plan cfg) s [] = (Inl e, s', tried_hosts) \<longrightarrow>
        prepare ops cfg a_query s = (Inl e, s') \<and> query ops cfg a_query s = (Inl e, s')"
    by (simp add: prepare_def query_def get_connection_def)
  have 4: "\<forall>st s' tried_hosts.
      connect cfg (new_query_plan cfg) s [] \<noteq> (Inr (None, st), s', tried_hosts)"
    using connect_returns_connection [of cfg "new_query_plan cfg" s "[]"] by fastforce
  from 1 2 3 4 show ?thesis by blast
qed

theorem prepare_is_query_witness:
  "fst (prepare echo_operations (example_configuration [host_b])
          \<lparr>query_string = ''SELECT 1'', query_stream = Invalid_Stream\<rparr> (new_session False))
     = Inr (conn_query echo_operations
              \<lparr>conn_id = 0, conn_endpoint = ''10.0.0.2:9042'', healthy = True,
                 closed = False, free_streams = [1], used_streams = [0]\<rparr>
              \<lparr>query_string = ''SELECT 1'', query_stream = Stream 0\<rparr>) \<and>
   fst (query echo_operations (example_configuration [host_b])
          \<lparr>query_string = ''SELECT 1'', query_stream = Invalid_Stream\<rparr> (new_session False))
     = Inr (conn_query echo_operations
              \<lparr>conn_id = 0, conn_endpoint = ''10.0.0.2:9042'', healthy = True,
                 closed = False, free_streams = [1], used_streams = [0]\<rparr>
              \<lparr>query_string = ''SELECT 1'', query_stream = Stream 0\<rparr>) \<and>
   fst (prepare echo_operations (example_configuration [host_down])
          \<lparr>query_string = ''SELECT 1'', query_stream = Invalid_Stream\<rparr> (new_session False))
     = Inl (cql_exception ''no host is available according to load balancing policy.'')"
proof -
  let ?cfg = "example_configuration [host_b]"
  let ?other = "example_configuration [host_down]"
  let ?s = "new_session False"
  let ?q = "\<lparr>query_string = ''SELECT 1'', query_stream = Invalid_Stream\<rparr>"
  let ?c = "\<lparr>conn_id = 0, conn_endpoint = ''10.0.0.2:9042'', healthy = True,
           closed = False, free_streams = [1], used_streams = [0]\<rparr>"
  let ?X = "connect ?cfg (new_query_plan ?cfg) ?s []"
  let ?Z = "connect ?other (new_query_plan ?other) ?s []"
  have "fst ?X = Inr (Some ?c, Stream 0)" by code_simp
  then have g: "?X = (Inr (Some ?c, Stream 0), fst (snd ?X), snd (snd ?X))"
    by (simp add: prod_eq_iff)
  have "fst ?Z = Inl (cql_exception ''no host is available according to load balancing policy.'')"
    by code_simp
  then have z: "?Z = (Inl (cql_exception ''no host is available according to load balancing policy.''),
                       fst (snd ?Z), snd (snd ?Z))"
    by (simp add: prod_eq_iff)
  note a = prepare_is_query [of echo_operations ?cfg ?q ?s]
  note b = prepare_is_query [of echo_operations ?other ?q ?s]
  note a3 = a [THEN conjunct2, THEN conjunct2, THEN conjunct1, rule_format, OF g]
  note b4 = b [THEN conjunct2, THEN conjunct2, THEN conjunct2, THEN conjunct1, rule_format, OF z]
  from a3 have
    "fst (prepare echo_operations ?cfg ?q ?s)
       = Inr (conn_query echo_operations ?c (?q\<lparr>query_stream := Stream 0\<rparr>)) \<and>
     fst (query echo_operations ?cfg ?q ?s)
       = Inr (conn_query echo_operations ?c (?q\<lparr>query_stream := Stream 0\<rparr>))"
    by simp
  moreover from b4 have
    "fst (prepare echo_operations ?other ?q ?s)
       = Inl (cql_exception ''no host is available according to load balancing policy.'')"
    by simp
  ultimately show ?thesis by simp
qed

end
